theory Spec2Isabelle
  imports Main "HOL-Library.Word"
begin

unbundle bit_operations_syntax

section \<open>The interpreter half: literal decoding parameters and addition\<close>

subsection \<open>Selection of the literal-index encoding in \<open>vm_loop\<close>\<close>

text \<open>
  \<^verbatim>\<open>
  if (bytecode_header_p->status_flags & CBC_CODE_FLAGS_FULL_LITERAL_ENCODING == cbc_literal_encoding_small)
  { encoding_limit = 255; encoding_delta = 0xfe01; }
  else
  { encoding_limit = 128; encoding_delta = 0x8000; }
  \<close>
  The two constants come from a header that is not among the sources, so they are
  parameters \<open>full_flag\<close> and \<open>small\<close> (C \<open>int\<close> constants). \<open>status_flags\<close> (here \<open>header_flags\<close>) is a
  \<open>uint16_t\<close>, promoted to \<open>int\<close>. In C the operator \<open>==\<close> binds tighter than \<open>&\<close>:
  the condition is \<open>status_flags & (full_flag == small)\<close>, where the comparison yields
  the \<open>int\<close> 1 or 0, and the branch is taken when the conjunction is not zero.
  The result is the pair \<open>(encoding_limit, encoding_delta)\<close>.
\<close>

definition vm_loop_encoding :: "int \<Rightarrow> int \<Rightarrow> 16 word \<Rightarrow> 16 word \<times> 16 word" where
  "vm_loop_encoding full_flag small header_flags =
     (if uint header_flags AND (if full_flag = small then 1 else 0) \<noteq> 0
      then (255, 0xfe01)
      else (128, 0x8000))"

text \<open>
  The selection as the specification words it: the test is
  \<open>(status_flags & full_flag) == small\<close>.
\<close>

definition vm_loop_encoding_spec :: "int \<Rightarrow> int \<Rightarrow> 16 word \<Rightarrow> 16 word \<times> 16 word" where
  "vm_loop_encoding_spec full_flag small header_flags =
     (if uint header_flags AND full_flag = small
      then (255, 0xfe01)
      else (128, 0x8000))"

subsection \<open>\<open>vm_op_add\<close>\<close>

text \<open>
  An \<open>ecma_value_t\<close> packs a type field and a value field; the four type fields are the
  ones \<open>util_print_ecma_value\<close> switches on. A value is modelled by its type field (the
  constructor) and what the value field holds: the simple-value code, or a pointer.
  Numbers live in allocated cells: the pool of \<open>ecma_number_t\<close> cells is a list and a
  pointer is an index into it; \<open>ecma_alloc_number\<close> hands out the next cell. The number
  type is a parameter with its addition (\<open>ecma_number_t\<close> is a C floating type).
  Simple values other than undefined, null and the booleans (the empty value, the array
  hole, ...) are \<open>ECMA_SIMPLE_VALUE_OTHER\<close>.
\<close>

datatype ecma_type = ECMA_TYPE_SIMPLE | ECMA_TYPE_NUMBER | ECMA_TYPE_STRING | ECMA_TYPE_OBJECT

datatype ecma_simple_value =
    ECMA_SIMPLE_VALUE_UNDEFINED
  | ECMA_SIMPLE_VALUE_NULL
  | ECMA_SIMPLE_VALUE_FALSE
  | ECMA_SIMPLE_VALUE_TRUE
  | ECMA_SIMPLE_VALUE_OTHER nat

datatype ecma_value =
    Simple_Value ecma_simple_value
  | Number_Value nat
  | String_Value nat
  | Object_Value nat

datatype vm_fault = JERRY_UNREACHABLE | INVALID_POINTER

fun ecma_get_value_type_field :: "ecma_value \<Rightarrow> ecma_type" where
  "ecma_get_value_type_field (Simple_Value _) = ECMA_TYPE_SIMPLE"
| "ecma_get_value_type_field (Number_Value _) = ECMA_TYPE_NUMBER"
| "ecma_get_value_type_field (String_Value _) = ECMA_TYPE_STRING"
| "ecma_get_value_type_field (Object_Value _) = ECMA_TYPE_OBJECT"

definition ecma_make_simple_value :: "ecma_simple_value \<Rightarrow> ecma_value" where
  "ecma_make_simple_value v = Simple_Value v"

definition ecma_is_value_undefined :: "ecma_value \<Rightarrow> bool" where
  "ecma_is_value_undefined v \<longleftrightarrow> v = Simple_Value ECMA_SIMPLE_VALUE_UNDEFINED"

definition ecma_is_value_null :: "ecma_value \<Rightarrow> bool" where
  "ecma_is_value_null v \<longleftrightarrow> v = Simple_Value ECMA_SIMPLE_VALUE_NULL"

definition ecma_is_value_boolean :: "ecma_value \<Rightarrow> bool" where
  "ecma_is_value_boolean v \<longleftrightarrow>
     v = Simple_Value ECMA_SIMPLE_VALUE_FALSE \<or> v = Simple_Value ECMA_SIMPLE_VALUE_TRUE"

definition ecma_is_value_number :: "ecma_value \<Rightarrow> bool" where
  "ecma_is_value_number v \<longleftrightarrow> ecma_get_value_type_field v = ECMA_TYPE_NUMBER"

definition ecma_is_value_string :: "ecma_value \<Rightarrow> bool" where
  "ecma_is_value_string v \<longleftrightarrow> ecma_get_value_type_field v = ECMA_TYPE_STRING"

definition ecma_is_value_object :: "ecma_value \<Rightarrow> bool" where
  "ecma_is_value_object v \<longleftrightarrow> ecma_get_value_type_field v = ECMA_TYPE_OBJECT"

text \<open>The pointer held by a number value; reading through it fails outside the pool.\<close>

fun ecma_get_number_from_value :: "ecma_value \<Rightarrow> nat option" where
  "ecma_get_number_from_value (Number_Value p) = Some p"
| "ecma_get_number_from_value _ = None"

definition read_number :: "'n list \<Rightarrow> nat option \<Rightarrow> 'n option" where
  "read_number pool p =
     (case p of None \<Rightarrow> None | Some i \<Rightarrow> if i < length pool then Some (pool ! i) else None)"

text \<open>
  \<open>vm_op_add\<close>, with the pool of number cells passed through. The two trailing
  \<open>JERRY_UNREACHABLE\<close> of the source are the fault of the same name.
\<close>

definition vm_op_add ::
  "ecma_value \<Rightarrow> ecma_value \<Rightarrow> ('n::plus) list \<Rightarrow> vm_fault + (ecma_value \<times> 'n list)" where
  "vm_op_add lhs rhs pool =
     (if ecma_get_value_type_field lhs \<noteq> ecma_get_value_type_field rhs
      then Inr (ecma_make_simple_value ECMA_SIMPLE_VALUE_UNDEFINED, pool)
      else if ecma_is_value_undefined lhs then Inr (lhs, pool)
      else if ecma_is_value_null lhs then Inr (lhs, pool)
      else if ecma_is_value_boolean lhs
      then Inr (ecma_make_simple_value ECMA_SIMPLE_VALUE_UNDEFINED, pool)
      else if ecma_is_value_number lhs
      then (case (read_number pool (ecma_get_number_from_value lhs),
                  read_number pool (ecma_get_number_from_value rhs)) of
              (Some l, Some r) \<Rightarrow> Inr (Number_Value (length pool), pool @ [l + r])
            | _ \<Rightarrow> Inl INVALID_POINTER)
      else if ecma_is_value_string lhs
      then Inr (ecma_make_simple_value ECMA_SIMPLE_VALUE_UNDEFINED, pool)
      else if ecma_is_value_object lhs
      then Inr (ecma_make_simple_value ECMA_SIMPLE_VALUE_UNDEFINED, pool)
      else Inl JERRY_UNREACHABLE)"

section \<open>The parser: tokens, context, statement stack\<close>

subsection \<open>Results and sequencing\<close>

text \<open>
  \<open>parser_raise_error\<close> leaves the parser by a non-local jump, with the context as it is at
  that moment. A function that can raise returns a sum: \<open>Inl\<close> carries the error kind and
  the context at the raise, \<open>Inr\<close> the normal result. \<open>seq\<close> runs the next step on the
  normal result. \<open>PARSER_ASSERT\<close> is compiled out (it checks in a debug build only);
  where the code then reads from the statement stack a structure that is not there, the
  model stops with \<open>PARSER_ASSERT_FAILED\<close>, which is not one of the C error kinds.
\<close>

datatype parser_error_t =
    PARSER_ERR_ARGUMENT_LIST_EXPECTED
  | PARSER_ERR_CASE_NOT_IN_SWITCH
  | PARSER_ERR_CATCH_FINALLY_EXPECTED
  | PARSER_ERR_COLON_EXPECTED
  | PARSER_ERR_DEFAULT_NOT_IN_SWITCH
  | PARSER_ERR_DUPLICATED_LABEL
  | PARSER_ERR_EXPRESSION_EXPECTED
  | PARSER_ERR_IDENTIFIER_EXPECTED
  | PARSER_ERR_INVALID_BREAK
  | PARSER_ERR_INVALID_BREAK_LABEL
  | PARSER_ERR_INVALID_CONTINUE
  | PARSER_ERR_INVALID_CONTINUE_LABEL
  | PARSER_ERR_INVALID_EXPRESSION
  | PARSER_ERR_INVALID_RETURN
  | PARSER_ERR_INVALID_RIGHT_SQUARE
  | PARSER_ERR_INVALID_SWITCH
  | PARSER_ERR_IN_EXPECTED
  | PARSER_ERR_LEFT_BRACE_EXPECTED
  | PARSER_ERR_LEFT_PAREN_EXPECTED
  | PARSER_ERR_MULTIPLE_DEFAULTS_NOT_ALLOWED
  | PARSER_ERR_NON_STRICT_ARG_DEFINITION
  | PARSER_ERR_OBJECT_ITEM_SEPARATOR_EXPECTED
  | PARSER_ERR_PRIMARY_EXP_EXPECTED
  | PARSER_ERR_RIGHT_PAREN_EXPECTED
  | PARSER_ERR_SEMICOLON_EXPECTED
  | PARSER_ERR_STATEMENT_EXPECTED
  | PARSER_ERR_STRICT_IDENT_NOT_ALLOWED
  | PARSER_ERR_WHILE_EXPECTED
  | PARSER_ERR_WITH_NOT_ALLOWED
  | PARSER_ERR_OTHER nat
  | PARSER_ASSERT_FAILED

definition seq :: "'e + 'a \<Rightarrow> ('a \<Rightarrow> 'e + 'b) \<Rightarrow> 'e + 'b" where
  "seq m f = (case m of Inl e \<Rightarrow> Inl e | Inr a \<Rightarrow> f a)"

subsection \<open>Tokens\<close>

text \<open>
  The token types the sources name; every other punctuator or keyword is
  \<open>LEXER_OTHER\<close>. The enumeration itself is declared in the lexer's header, which is not
  among the sources.
\<close>

datatype lexer_token_type_t =
    LEXER_EOS
  | LEXER_LITERAL
  | LEXER_KEYW_NEW
  | LEXER_KEYW_FUNCTION
  | LEXER_KEYW_THIS
  | LEXER_LIT_TRUE
  | LEXER_LIT_FALSE
  | LEXER_LIT_NULL
  | LEXER_KEYW_ELSE
  | LEXER_KEYW_DO
  | LEXER_KEYW_RETURN
  | LEXER_KEYW_TRY
  | LEXER_KEYW_FINALLY
  | LEXER_KEYW_DEBUGGER
  | LEXER_KEYW_IF
  | LEXER_KEYW_WHILE
  | LEXER_KEYW_WITH
  | LEXER_KEYW_SWITCH
  | LEXER_KEYW_CATCH
  | LEXER_KEYW_FOR
  | LEXER_KEYW_VAR
  | LEXER_KEYW_THROW
  | LEXER_KEYW_BREAK
  | LEXER_KEYW_CONTINUE
  | LEXER_KEYW_DEFAULT
  | LEXER_KEYW_CASE
  | LEXER_KEYW_IN
  | LEXER_LEFT_BRACE
  | LEXER_RIGHT_BRACE
  | LEXER_LEFT_PAREN
  | LEXER_RIGHT_PAREN
  | LEXER_LEFT_SQUARE
  | LEXER_RIGHT_SQUARE
  | LEXER_SEMICOLON
  | LEXER_COLON
  | LEXER_COMMA
  | LEXER_DOT
  | LEXER_QUESTION_MARK
  | LEXER_ASSIGN
  | LEXER_ASSIGN_DIVIDE
  | LEXER_DIVIDE
  | LEXER_ADD
  | LEXER_SUBTRACT
  | LEXER_INCREASE
  | LEXER_DECREASE
  | LEXER_PROPERTY_GETTER
  | LEXER_PROPERTY_SETTER
  | LEXER_EXPRESSION_START
  | LEXER_SCAN_SWITCH
  | LEXER_OTHER nat

datatype lexer_literal_type_t = LEXER_IDENT_LITERAL | LEXER_STRING_LITERAL | LEXER_OTHER_LITERAL

text \<open>
  \<open>lexer_lit_location_t\<close>: \<open>char_p\<close> is the source text from the first byte of the
  literal on, \<open>length\<close> the number of bytes of the literal (\<open>lit_length\<close> here,
  \<open>lit_type\<close> for \<open>type\<close>).
\<close>

record lexer_lit_location_t =
  char_p :: string
  lit_length :: nat
  lit_type :: lexer_literal_type_t
  has_escape :: bool

text \<open>
  The byte \<open>literal_is_reserved\<close> of a token is a flag set by the lexer, and the
  statement parser reuses it to save a token type
  (\<open>token.literal_is_reserved = token.type\<close>). Read as a condition, a saved token type is
  a non-zero byte.
\<close>

datatype literal_is_reserved_t = Reserved_Flag bool | Saved_Token_Type lexer_token_type_t

fun is_reserved :: "literal_is_reserved_t \<Rightarrow> bool" where
  "is_reserved (Reserved_Flag b) = b"
| "is_reserved (Saved_Token_Type t) = True"

fun saved_token_type :: "literal_is_reserved_t \<Rightarrow> lexer_token_type_t" where
  "saved_token_type (Saved_Token_Type t) = t"
| "saved_token_type (Reserved_Flag b) = (if b then LEXER_OTHER 1 else LEXER_EOS)"

record lexer_token_t =
  tok_type :: lexer_token_type_t
  was_newline :: bool
  literal_is_reserved :: literal_is_reserved_t
  lit_location :: lexer_lit_location_t

record lexer_range_t =
  range_source_p :: nat
  range_source_end_p :: nat

subsection \<open>Byte code and branches\<close>

text \<open>
  The opcodes the sources name, ordinary and extended (an extended opcode is kept in
  \<open>last_cbc_opcode\<close> like an ordinary one); every other opcode is \<open>CBC_OTHER\<close>.
  \<open>PARSER_CBC_UNAVAILABLE\<close> is the value of an empty last-opcode cache.
\<close>

datatype cbc_opcode_t =
    PARSER_CBC_UNAVAILABLE
  | CBC_PUSH_IDENT
  | CBC_PUSH_LITERAL
  | CBC_PUSH_TRUE
  | CBC_PUSH_FALSE
  | CBC_LOGICAL_NOT
  | CBC_POP
  | CBC_ASSIGN
  | CBC_ASSIGN_IDENT
  | CBC_ASSIGN_PROP_STRING
  | CBC_PROP_GET
  | CBC_PROP_STRING_GET
  | CBC_STRICT_EQUAL
  | CBC_THROW
  | CBC_RETURN
  | CBC_RETURN_WITH_UNDEFINED
  | CBC_CONTEXT_END
  | CBC_JUMP_FORWARD
  | CBC_JUMP_FORWARD_EXIT_CONTEXT
  | CBC_JUMP_BACKWARD
  | CBC_BRANCH_IF_TRUE_FORWARD
  | CBC_BRANCH_IF_FALSE_FORWARD
  | CBC_BRANCH_IF_TRUE_BACKWARD
  | CBC_BRANCH_IF_FALSE_BACKWARD
  | CBC_BRANCH_IF_STRICT_EQUAL
  | CBC_EXT_WITH_CREATE_CONTEXT
  | CBC_EXT_FOR_IN_CREATE_CONTEXT
  | CBC_EXT_FOR_IN_GET_NEXT
  | CBC_EXT_BRANCH_IF_FOR_IN_HAS_NEXT
  | CBC_EXT_PUSH_UNDEFINED_BASE
  | CBC_EXT_TRY_CREATE_CONTEXT
  | CBC_EXT_CATCH
  | CBC_EXT_FINALLY
  | CBC_EXT_DEBUGGER
  | CBC_OTHER nat

text \<open>
  The byte-code buffer is the list of the instructions written so far, and a position
  in it (\<open>byte_code_size\<close>, \<open>start_offset\<close>, a branch's \<open>offset\<close>) counts instructions.
  The operand of a forward branch is \<open>None\<close> until it is patched.
\<close>

datatype cbc_argument_t =
    No_Operand
  | Literal_Operand nat
  | Forward_Branch_Operand "nat option"
  | Backward_Branch_Operand nat
  | Other_Operand nat

record cbc_instr =
  opcode :: cbc_opcode_t
  operand :: cbc_argument_t

text \<open>
  \<open>parser_branch_t\<close>: where the branch instruction was written. The highest bit of
  \<open>offset\<close>, which \<open>offset |= CBC_HIGHEST_BIT_MASK\<close> sets on a continue, is kept apart
  from the position as \<open>highest_bit\<close>.
\<close>

record parser_branch_t =
  offset :: nat
  highest_bit :: bool

text \<open>
  A \<open>parser_branch_node_t\<close> is an allocated object; \<open>node_address\<close> tells the nodes
  apart. A list of nodes linked by \<open>next_p\<close> is a list, \<open>NULL\<close> the empty list.
\<close>

record parser_branch_node_t =
  node_address :: nat
  branch :: parser_branch_t

subsection \<open>Statements on the stack\<close>

record parser_label_statement_t =
  label_ident :: lexer_lit_location_t
  break_list_p :: "parser_branch_node_t list"

record parser_switch_statement_t =
  default_branch :: parser_branch_t
  case_branch_list_p :: "parser_branch_node_t list"

record parser_while_statement_t =
  while_branch :: parser_branch_t
  while_condition_range :: lexer_range_t
  while_start_offset :: nat

record parser_for_statement_t =
  for_branch :: parser_branch_t
  for_condition_range :: lexer_range_t
  for_expression_range :: lexer_range_t
  for_start_offset :: nat

record parser_for_in_statement_t =
  for_in_branch :: parser_branch_t
  for_in_start_offset :: nat

datatype parser_try_block_type_t = parser_try_block | parser_catch_block | parser_finally_block

record parser_try_statement_t =
  try_type :: parser_try_block_type_t
  try_branch :: parser_branch_t

text \<open>
  The structures with one member are their member: \<open>parser_loop_statement_t\<close> is its
  \<open>branch_list_p\<close>, \<open>parser_if_else_statement_t\<close> and \<open>parser_with_statement_t\<close> are
  their \<open>branch\<close>, \<open>parser_do_while_statement_t\<close> is its \<open>start_offset\<close>.
\<close>

type_synonym parser_loop_statement_t = "parser_branch_node_t list"
type_synonym parser_if_else_statement_t = parser_branch_t
type_synonym parser_with_statement_t = parser_branch_t
type_synonym parser_do_while_statement_t = nat

text \<open>
  The statement types and the scanner's stack symbols are bytes on the same stack; their
  values are the positions in the two C enumerations.
\<close>

definition PARSER_STATEMENT_START :: nat where "PARSER_STATEMENT_START = 0"
definition PARSER_STATEMENT_BLOCK :: nat where "PARSER_STATEMENT_BLOCK = 1"



text \<open>
  The stack is a byte buffer on which a statement is its structures with the type byte
  on top. Here it is a list of frames, the top first. A frame is either a lone byte
  (\<open>PARSER_STATEMENT_START\<close>, \<open>PARSER_STATEMENT_BLOCK\<close>, a symbol of the scanner), pushed
  by \<open>parser_stack_push_uint8\<close> alone, or the structures of a statement under their type
  byte. \<open>frame_type\<close> is the byte on top of a frame.
\<close>

datatype parser_frame =
    Byte_Frame nat
  | Label_Frame parser_label_statement_t
  | If_Frame parser_if_else_statement_t
  | Else_Frame parser_if_else_statement_t
  | Switch_Frame parser_switch_statement_t parser_loop_statement_t
  | Switch_No_Default_Frame parser_switch_statement_t parser_loop_statement_t
  | Do_While_Frame parser_do_while_statement_t parser_loop_statement_t
  | While_Frame parser_while_statement_t parser_loop_statement_t
  | For_Frame parser_for_statement_t parser_loop_statement_t
  | For_In_Frame parser_for_in_statement_t parser_loop_statement_t
  | With_Frame parser_with_statement_t
  | Try_Frame parser_try_statement_t


subsection \<open>The parser context\<close>

datatype parser_status_flag =
    PARSER_IS_STRICT
  | PARSER_IS_FUNCTION
  | PARSER_IS_CLOSURE
  | PARSER_HAS_NON_STRICT_ARG
  | PARSER_IN_WIDTH

datatype lexer_literal_flag = LEXER_FLAG_VAR | LEXER_FLAG_INITIALIZED

datatype lexer_literal_object_type_t =
    lexer_literal_object_any
  | lexer_literal_object_eval
  | lexer_literal_object_arguments

record lexer_literal_t =
  literal_chars :: string
  literal_type :: lexer_literal_type_t
  literal_status_flags :: "lexer_literal_flag set"

record lexer_lit_object_t =
  lit_index :: nat
  lit_object_type :: lexer_literal_object_type_t

text \<open>
  \<open>parser_context_t\<close>, in a build without \<open>PARSER_DEBUG\<close>. \<open>status_flags\<close> is the set
  of the flags that are set. The source is the list of its tokens, \<open>source_p\<close> and
  \<open>source_end_p\<close> are positions in it (line and column are left out).
  \<open>last_statement\<close> is the iterator of that name: \<open>None\<close> while its \<open>current_p\<close> is
  \<open>NULL\<close>, else the number of frames from the bottom of the stack up to the one it points
  to. \<open>literal_pool\<close> holds the literals, \<open>lit_object\<close> the one constructed last.
  \<open>branch_nodes\<close> is the set of the addresses of the allocated branch nodes and
  \<open>node_count\<close> the number of nodes allocated so far.
\<close>

record parser_context_t =
  token :: lexer_token_t
  source :: "lexer_token_t list"
  source_p :: nat
  source_end_p :: nat
  status_flags :: "parser_status_flag set"
  stack :: "parser_frame list"
  last_statement :: "nat option"
  last_cbc_opcode :: cbc_opcode_t
  last_cbc :: cbc_argument_t
  byte_code :: "cbc_instr list"
  stack_depth :: "16 word"
  literal_pool :: "lexer_literal_t list"
  lit_object :: lexer_lit_object_t
  branch_nodes :: "nat set"
  node_count :: nat

type_synonym 'a result = "(parser_error_t \<times> parser_context_t) + 'a"

definition parser_raise_error :: "parser_context_t \<Rightarrow> parser_error_t \<Rightarrow> 'a result" where
  "parser_raise_error c e = Inl (e, c)"

definition byte_code_size :: "parser_context_t \<Rightarrow> nat" where
  "byte_code_size c = length (byte_code c)"


definition parser_stack_push_uint8 :: "parser_context_t \<Rightarrow> nat \<Rightarrow> parser_context_t" where
  "parser_stack_push_uint8 c b = c\<lparr>stack := Byte_Frame b # stack c\<rparr>"

definition parser_stack_push_frame :: "parser_context_t \<Rightarrow> parser_frame \<Rightarrow> parser_context_t" where
  "parser_stack_push_frame c f = c\<lparr>stack := f # stack c\<rparr>"

definition parser_stack_pop_frame :: "parser_context_t \<Rightarrow> parser_context_t" where
  "parser_stack_pop_frame c = c\<lparr>stack := tl (stack c)\<rparr>"

definition parser_stack_iterator_init :: "parser_context_t \<Rightarrow> nat option" where
  "parser_stack_iterator_init c = Some (length (stack c))"

definition set_last_statement :: "parser_context_t \<Rightarrow> parser_context_t" where
  "set_last_statement c = c\<lparr>last_statement := parser_stack_iterator_init c\<rparr>"

text \<open>The frames an iterator sees, from the one it points to down to the bottom.\<close>

definition frames_from :: "parser_context_t \<Rightarrow> nat option \<Rightarrow> parser_frame list" where
  "frames_from c it =
     (case it of None \<Rightarrow> [] | Some n \<Rightarrow> drop (length (stack c) - n) (stack c))"

subsection \<open>The lexer, on tokens\<close>

text \<open>
  Modelled from the spec: the lexer is not among the sources. It classifies the next
  token of the text between \<open>source_p\<close> and \<open>source_end_p\<close>; past the end the token is
  \<open>EOS\<close>. Here the text is already a list of tokens, and \<open>lexer_next_token\<close> takes the
  next one. \<open>lexer_scan_identifier\<close>, the mode that reads a property name, takes the next
  token as well, and \<open>lexer_construct_regexp_object\<close>, which rereads a \<open>/\<close> as the start
  of a regular expression literal, leaves the position alone: the token stands for the
  whole literal.
\<close>

definition eos_token :: lexer_token_t where
  "eos_token = \<lparr>tok_type = LEXER_EOS, was_newline = False,
                literal_is_reserved = Reserved_Flag False,
                lit_location = \<lparr>char_p = [], lit_length = 0,
                                 lit_type = LEXER_OTHER_LITERAL, has_escape = False\<rparr>\<rparr>"

definition lexer_next_token :: "parser_context_t \<Rightarrow> parser_context_t" where
  "lexer_next_token c =
     (if source_p c < source_end_p c \<and> source_p c < length (source c)
      then c\<lparr>token := source c ! source_p c, source_p := Suc (source_p c)\<rparr>
      else c\<lparr>token := eos_token\<rparr>)"



definition literal_bytes :: "lexer_lit_location_t \<Rightarrow> string" where
  "literal_bytes l = take (lit_length l) (char_p l)"

text \<open>
  Modelled from the spec: \<open>lexer_same_identifiers\<close> (the test for an identically named
  label) compares the bytes of the two identifiers.
\<close>

definition lexer_same_identifiers :: "lexer_lit_location_t \<Rightarrow> lexer_lit_location_t \<Rightarrow> bool" where
  "lexer_same_identifiers a b \<longleftrightarrow> literal_bytes a = literal_bytes b"

text \<open>
  Modelled from the spec: \<open>lexer_construct_literal_object\<close> is the interning hook. It
  looks the literal up in the pool, appends it when it is new, and leaves its index and
  whether it is \<open>eval\<close> or \<open>arguments\<close> in \<open>lit_object\<close>.
\<close>

fun find_literal :: "lexer_literal_t list \<Rightarrow> string \<Rightarrow> lexer_literal_type_t \<Rightarrow> nat \<Rightarrow> nat option" where
  "find_literal [] s t i = None"
| "find_literal (l # ls) s t i =
     (if literal_chars l = s \<and> literal_type l = t then Some i else find_literal ls s t (Suc i))"

definition literal_object_type :: "string \<Rightarrow> lexer_literal_type_t \<Rightarrow> lexer_literal_object_type_t" where
  "literal_object_type s t =
     (if t = LEXER_IDENT_LITERAL \<and> s = ''eval'' then lexer_literal_object_eval
      else if t = LEXER_IDENT_LITERAL \<and> s = ''arguments'' then lexer_literal_object_arguments
      else lexer_literal_object_any)"

definition lexer_construct_literal_object ::
  "parser_context_t \<Rightarrow> lexer_lit_location_t \<Rightarrow> lexer_literal_type_t \<Rightarrow> parser_context_t" where
  "lexer_construct_literal_object c l t =
     (let s = literal_bytes l in
      case find_literal (literal_pool c) s t 0 of
        Some i \<Rightarrow> c\<lparr>lit_object := \<lparr>lit_index = i, lit_object_type = literal_object_type s t\<rparr>\<rparr>
      | None \<Rightarrow>
          c\<lparr>literal_pool := literal_pool c @
                [\<lparr>literal_chars = s, literal_type = t, literal_status_flags = {}\<rparr>],
            lit_object := \<lparr>lit_index = length (literal_pool c),
                           lit_object_type = literal_object_type s t\<rparr>\<rparr>)"

text \<open>
  Modelled from the spec: \<open>lexer_expect_identifier\<close> takes the next token, which has to
  be an identifier, and constructs its literal object.
\<close>

definition lexer_expect_identifier ::
  "parser_context_t \<Rightarrow> lexer_literal_type_t \<Rightarrow> parser_context_t result" where
  "lexer_expect_identifier c t =
     (let c = lexer_next_token c in
      if tok_type (token c) = LEXER_LITERAL \<and> lit_type (lit_location (token c)) = LEXER_IDENT_LITERAL
      then Inr (lexer_construct_literal_object c (lit_location (token c)) t)
      else parser_raise_error c PARSER_ERR_IDENTIFIER_EXPECTED)"

text \<open>\<open>context_p->lit_object.literal_p->status_flags |= flags\<close>\<close>

definition literal_set_flags :: "parser_context_t \<Rightarrow> lexer_literal_flag set \<Rightarrow> parser_context_t" where
  "literal_set_flags c fs =
     (let i = lit_index (lit_object c) in
      if i < length (literal_pool c)
      then c\<lparr>literal_pool := (literal_pool c)
               [i := (literal_pool c ! i)\<lparr>literal_status_flags :=
                        literal_status_flags (literal_pool c ! i) \<union> fs\<rparr>]\<rparr>
      else c)"

subsection \<open>The emitter\<close>

text \<open>
  Modelled from the spec: the emitter is not among the sources. The last-opcode cache
  holds the pending opcode and its operand; \<open>parser_flush_cbc\<close> commits the cache
  unmodified and empties it. Every emit commits what is pending first; fusing a pending
  opcode with the next one is left to the expression parser. An emit of a plain opcode
  leaves it pending. A branch is written at once: a forward branch with an operand that
  awaits its patch, its \<open>parser_branch_t\<close> holding the place where it was written; a
  backward branch with the operand \<open>current size - target offset\<close>.
  \<open>parser_set_branch_to_current_position\<close> patches the operand at the branch's place to
  \<open>current size - place\<close>. The stack effect of the opcodes is in a table that is not among
  the sources: the emitter leaves \<open>stack_depth\<close> alone.
\<close>

definition parser_flush_cbc :: "parser_context_t \<Rightarrow> parser_context_t" where
  "parser_flush_cbc c =
     (if last_cbc_opcode c = PARSER_CBC_UNAVAILABLE then c
      else c\<lparr>byte_code := byte_code c @ [\<lparr>opcode = last_cbc_opcode c, operand = last_cbc c\<rparr>],
             last_cbc_opcode := PARSER_CBC_UNAVAILABLE\<rparr>)"

definition parser_emit_cbc :: "parser_context_t \<Rightarrow> cbc_opcode_t \<Rightarrow> parser_context_t" where
  "parser_emit_cbc c op = (parser_flush_cbc c)\<lparr>last_cbc_opcode := op, last_cbc := No_Operand\<rparr>"

definition parser_emit_cbc_ext :: "parser_context_t \<Rightarrow> cbc_opcode_t \<Rightarrow> parser_context_t" where
  "parser_emit_cbc_ext c op = parser_emit_cbc c op"



definition parser_emit_cbc_forward_branch ::
  "parser_context_t \<Rightarrow> cbc_opcode_t \<Rightarrow> parser_branch_t \<times> parser_context_t" where
  "parser_emit_cbc_forward_branch c op =
     (let c = parser_flush_cbc c in
      (\<lparr>offset = length (byte_code c), highest_bit = False\<rparr>,
       c\<lparr>byte_code := byte_code c @ [\<lparr>opcode = op, operand = Forward_Branch_Operand None\<rparr>]\<rparr>))"

definition parser_emit_cbc_ext_forward_branch ::
  "parser_context_t \<Rightarrow> cbc_opcode_t \<Rightarrow> parser_branch_t \<times> parser_context_t" where
  "parser_emit_cbc_ext_forward_branch c op = parser_emit_cbc_forward_branch c op"

definition parser_emit_cbc_backward_branch ::
  "parser_context_t \<Rightarrow> cbc_opcode_t \<Rightarrow> nat \<Rightarrow> parser_context_t" where
  "parser_emit_cbc_backward_branch c op target =
     (let c = parser_flush_cbc c in
      c\<lparr>byte_code := byte_code c @
          [\<lparr>opcode = op, operand = Backward_Branch_Operand (length (byte_code c) - target)\<rparr>]\<rparr>)"

definition parser_emit_cbc_ext_backward_branch ::
  "parser_context_t \<Rightarrow> cbc_opcode_t \<Rightarrow> nat \<Rightarrow> parser_context_t" where
  "parser_emit_cbc_ext_backward_branch c op target = parser_emit_cbc_backward_branch c op target"

definition patch_branch :: "cbc_instr list \<Rightarrow> nat \<Rightarrow> nat \<Rightarrow> cbc_instr list" where
  "patch_branch code place target =
     (if place < length code
      then code[place := (code ! place)\<lparr>operand := Forward_Branch_Operand (Some (target - place))\<rparr>]
      else code)"

definition parser_set_branch_to_current_position ::
  "parser_context_t \<Rightarrow> parser_branch_t \<Rightarrow> parser_context_t" where
  "parser_set_branch_to_current_position c b =
     (let c = parser_flush_cbc c in
      c\<lparr>byte_code := patch_branch (byte_code c) (offset b) (length (byte_code c))\<rparr>)"

text \<open>
  Modelled from the spec: \<open>parser_emit_cbc_forward_branch_item\<close> emits the branch and
  prepends a newly allocated node for it to the list.
\<close>

definition parser_emit_cbc_forward_branch_item ::
  "parser_context_t \<Rightarrow> cbc_opcode_t \<Rightarrow> parser_branch_node_t list \<Rightarrow>
     parser_branch_node_t list \<times> parser_context_t" where
  "parser_emit_cbc_forward_branch_item c op next_p =
     (let (b, c) = parser_emit_cbc_forward_branch c op;
          a = node_count c
      in (\<lparr>node_address = a, branch = b\<rparr> # next_p,
          c\<lparr>branch_nodes := insert a (branch_nodes c), node_count := Suc a\<rparr>))"

definition parser_free :: "parser_context_t \<Rightarrow> parser_branch_node_t \<Rightarrow> parser_context_t" where
  "parser_free c n = c\<lparr>branch_nodes := branch_nodes c - {node_address n}\<rparr>"

text \<open>
  Modelled from the spec: the two functions that drain a list of branch nodes. The
  nodes whose offset has its highest bit set are the continues, the others the breaks.
  The callers hand the same list first to \<open>parser_set_continues_to_current_position\<close>, at
  the place a continue goes to, and later to \<open>parser_set_breaks_to_current_position\<close>, at
  the end of the statement: the first patches the continues and keeps the nodes, the
  second patches the breaks and frees every node.
\<close>

fun parser_set_continues_to_current_position ::
  "parser_context_t \<Rightarrow> parser_branch_node_t list \<Rightarrow> parser_context_t" where
  "parser_set_continues_to_current_position c [] = c"
| "parser_set_continues_to_current_position c (n # next_p) =
     parser_set_continues_to_current_position
       (if highest_bit (branch n) then parser_set_branch_to_current_position c (branch n) else c)
       next_p"

fun parser_set_breaks_to_current_position ::
  "parser_context_t \<Rightarrow> parser_branch_node_t list \<Rightarrow> parser_context_t" where
  "parser_set_breaks_to_current_position c [] = c"
| "parser_set_breaks_to_current_position c (n # next_p) =
     parser_set_breaks_to_current_position
       (parser_free
          (if \<not> highest_bit (branch n) then parser_set_branch_to_current_position c (branch n)
           else c) n)
       next_p"

subsection \<open>What the sources leave open\<close>

text \<open>
  The expression parser, the construction of a function object, the two token classes
  of the lexer's header and the three context-stack allocation constants are not among
  the sources. They are the parameters of the model, collected in one record.
  \<open>parser_parse_expression\<close> gets its options as the set of the option flags.
\<close>

datatype parse_expr_option =
    PARSE_EXPR_STATEMENT
  | PARSE_EXPR_BLOCK
  | PARSE_EXPR_NO_COMMA
  | PARSE_EXPR_HAS_LITERAL


section \<open>The pre-scanner\<close>

text \<open>
  The three helpers return \<open>PARSER_TRUE\<close> or \<open>PARSER_FALSE\<close> and may change \<open>*mode\<close>
  and the context: the model returns the three together. \<open>type\<close> and \<open>stack_top\<close> are
  the values \<open>parser_scan_until\<close> read at the head of its loop.
\<close>

definition parser_stack_pop_uint8 :: "parser_context_t \<Rightarrow> parser_context_t" where
  "parser_stack_pop_uint8 c = parser_stack_pop_frame c"





text \<open>
  The number of tokens the lexer can still deliver, counting the current one unless it is
  \<open>EOS\<close>: what the loops of the scanner use up.
\<close>

definition tokens_left :: "parser_context_t \<Rightarrow> nat" where
  "tokens_left c =
     (min (source_end_p c) (length (source c)) - source_p c)
     + (if tok_type (token c) = LEXER_EOS then 0 else 1)"









subsection \<open>Termination of the scanner's loop\<close>


lemma lexer_next_token_tokens_left_less:
  "tok_type (token c) \<noteq> LEXER_EOS \<Longrightarrow> tokens_left (lexer_next_token c) < tokens_left c"
  by (auto simp: tokens_left_def lexer_next_token_def eos_token_def)



lemma seq_Inl [simp]: "seq (Inl e) f = Inl e"
  by (simp add: seq_def)

lemma seq_Inr [simp]: "seq (Inr a) f = f a"
  by (simp add: seq_def)


lemma raise_neq_Inr [simp]: "parser_raise_error c e \<noteq> Inr r"
  by (simp add: parser_raise_error_def)

definition same_input :: "parser_context_t \<Rightarrow> parser_context_t \<Rightarrow> bool" where
  "same_input c c' \<longleftrightarrow> token c' = token c \<and> source c' = source c \<and> source_p c' = source_p c
      \<and> source_end_p c' = source_end_p c"

lemma same_input_refl [simp]: "same_input c c"
  by (simp add: same_input_def)

lemma same_input_push [simp]: "same_input c (parser_stack_push_uint8 c b)"
  by (simp add: same_input_def parser_stack_push_uint8_def)

lemma same_input_pop [simp]: "same_input c (parser_stack_pop_uint8 c)"
  by (simp add: same_input_def parser_stack_pop_uint8_def parser_stack_pop_frame_def)


lemma next_push [simp]:
  "tokens_left (parser_stack_push_uint8 c b) = tokens_left c"
  "tok_type (token (parser_stack_push_uint8 c b)) = tok_type (token c)"
  by (simp_all add: tokens_left_def parser_stack_push_uint8_def)

lemma next_pop [simp]:
  "tokens_left (parser_stack_pop_uint8 c) = tokens_left c"
  "tok_type (token (parser_stack_pop_uint8 c)) = tok_type (token c)"
  by (simp_all add: tokens_left_def parser_stack_pop_uint8_def parser_stack_pop_frame_def)

lemma next_after_stack_less [simp]:
  "tok_type (token c) \<noteq> LEXER_EOS \<Longrightarrow>
     tokens_left (lexer_next_token (parser_stack_pop_uint8 c)) < tokens_left c"
  "tok_type (token c) \<noteq> LEXER_EOS \<Longrightarrow>
     tokens_left (lexer_next_token (parser_stack_push_uint8 c b)) < tokens_left c"
  using lexer_next_token_tokens_left_less [of "parser_stack_pop_uint8 c"]
        lexer_next_token_tokens_left_less [of "parser_stack_push_uint8 c b"]
  by simp_all


















section \<open>Concrete inputs\<close>



definition after_newline :: "lexer_token_t \<Rightarrow> lexer_token_t" where
  "after_newline t = t\<lparr>was_newline := True\<rparr>"






section \<open>Properties of the interpreter half\<close>

lemma vm_loop_encoding_distinct_constants:
  "full_flag \<noteq> small \<Longrightarrow> vm_loop_encoding full_flag small header_flags = (128, 0x8000)"
  by (simp add: vm_loop_encoding_def)

lemma vm_loop_encoding_equal_constants:
  "vm_loop_encoding c c header_flags =
     (if odd (uint header_flags) then (255, 0xfe01) else (128, 0x8000))"
  by (simp add: vm_loop_encoding_def and_one_eq flip: even_iff_mod_2_eq_zero)

text \<open>
  Claim C1. The specification says the parameters are chosen by the test
  \<open>(status_flags & CBC_CODE_FLAGS_FULL_LITERAL_ENCODING) == cbc_literal_encoding_small\<close>.
  With the flag being bit 0 and the small encoding the cleared bit, a header whose
  status flags are 0 selects the small encoding (limit 255, delta 0xfe01) under that
  test, while the condition as the code parses it is 0 and the code takes the
  full-encoding branch (limit 128, delta 0x8000).
\<close>

theorem vm_loop_encoding_precedence:
  "vm_loop_encoding 1 0 0 = (128, 0x8000) \<and> vm_loop_encoding_spec 1 0 0 = (255, 0xfe01)"
  by (simp add: vm_loop_encoding_def vm_loop_encoding_spec_def)

lemmas ecma_is_value_defs =
  ecma_is_value_undefined_def ecma_is_value_null_def ecma_is_value_boolean_def
  ecma_is_value_number_def ecma_is_value_string_def ecma_is_value_object_def
  ecma_make_simple_value_def

text \<open>
  Claim C10. \<open>vm_op_add\<close> returns the undefined simple value whenever the type fields of
  its operands differ. For operands with the same type field it returns \<open>lhs\<close> unchanged
  when \<open>lhs\<close> is undefined or null, undefined when \<open>lhs\<close> is a boolean, a string or an
  object, and a number only when both operands are numbers: then the result points to a
  cell that was not in the pool before the call, the cell holds the sum of the two
  operands' cells, and the cells that existed are unchanged.
\<close>

theorem vm_op_add_cases:
  fixes pool :: "('n::plus) list"
  shows
  "(ecma_get_value_type_field lhs \<noteq> ecma_get_value_type_field rhs \<longrightarrow>
      vm_op_add lhs rhs pool = Inr (Simple_Value ECMA_SIMPLE_VALUE_UNDEFINED, pool)) \<and>
   (ecma_get_value_type_field lhs = ecma_get_value_type_field rhs \<longrightarrow>
      ((ecma_is_value_undefined lhs \<or> ecma_is_value_null lhs) \<longrightarrow>
          vm_op_add lhs rhs pool = Inr (lhs, pool)) \<and>
      ((ecma_is_value_boolean lhs \<or> ecma_is_value_string lhs \<or> ecma_is_value_object lhs) \<longrightarrow>
          vm_op_add lhs rhs pool = Inr (Simple_Value ECMA_SIMPLE_VALUE_UNDEFINED, pool)) \<and>
      (\<forall>p q. lhs = Number_Value p \<and> rhs = Number_Value q \<and> p < length pool \<and> q < length pool \<longrightarrow>
          vm_op_add lhs rhs pool =
            Inr (Number_Value (length pool), pool @ [pool ! p + pool ! q]))) \<and>
   (\<forall>r pool'. vm_op_add lhs rhs pool = Inr (Number_Value r, pool') \<longrightarrow>
      ecma_is_value_number lhs \<and> ecma_is_value_number rhs \<and>
      r = length pool \<and> take (length pool) pool' = pool)"
  by (cases lhs; cases rhs)
     (auto simp: vm_op_add_def ecma_is_value_defs read_number_def
           split: option.splits if_splits)

theorem vm_op_add_cases_witness:
  "vm_op_add (Number_Value 0) (Number_Value 1) [2, 3 :: int] = Inr (Number_Value 2, [2, 3, 5]) \<and>
   vm_op_add (Simple_Value ECMA_SIMPLE_VALUE_NULL) (Simple_Value ECMA_SIMPLE_VALUE_TRUE) [2, 3 :: int]
     = Inr (Simple_Value ECMA_SIMPLE_VALUE_NULL, [2, 3]) \<and>
   vm_op_add (String_Value 0) (String_Value 1) [2, 3 :: int]
     = Inr (Simple_Value ECMA_SIMPLE_VALUE_UNDEFINED, [2, 3]) \<and>
   vm_op_add (String_Value 0) (Number_Value 1) [2, 3 :: int]
     = Inr (Simple_Value ECMA_SIMPLE_VALUE_UNDEFINED, [2, 3])"
proof -
  note same = vm_op_add_cases [THEN conjunct2, THEN conjunct1, rule_format]
  have a: "vm_op_add (Number_Value 0) (Number_Value 1) [2, 3 :: int]
             = Inr (Number_Value 2, [2, 3, 5])"
    using same [THEN conjunct2, THEN conjunct2, rule_format,
                of "Number_Value 0" "Number_Value 1" 0 1 "[2, 3 :: int]"]
    by simp
  have b: "vm_op_add (Simple_Value ECMA_SIMPLE_VALUE_NULL)
             (Simple_Value ECMA_SIMPLE_VALUE_TRUE) [2, 3 :: int]
             = Inr (Simple_Value ECMA_SIMPLE_VALUE_NULL, [2, 3])"
    by (rule same [THEN conjunct1, rule_format]) (simp_all add: ecma_is_value_null_def)
  have c: "vm_op_add (String_Value 0) (String_Value 1) [2, 3 :: int]
             = Inr (Simple_Value ECMA_SIMPLE_VALUE_UNDEFINED, [2, 3])"
    by (rule same [THEN conjunct2, THEN conjunct1, rule_format])
       (simp_all add: ecma_is_value_string_def)
  have d: "vm_op_add (String_Value 0) (Number_Value 1) [2, 3 :: int]
             = Inr (Simple_Value ECMA_SIMPLE_VALUE_UNDEFINED, [2, 3])"
    by (rule vm_op_add_cases [THEN conjunct1, rule_format]) simp
  from a b c d show ?thesis by blast
qed

section \<open>Properties of the pre-scanner\<close>






lemma pop_token [simp]: "token (parser_stack_pop_uint8 c) = token c"
  by (simp add: parser_stack_pop_uint8_def parser_stack_pop_frame_def)







end
